theory Spec2Isabelle
  imports Main "HOL-Library.Char_ord" "HOL-Library.List_Lexorder" "HOL-Library.Sublist"
begin

section \<open>Data model of the Build API (v1beta1), as far as the validations read it\<close>

text \<open>
  Go structs are records, pointers that may be nil are \<open>option\<close>s, slices are lists and
  Go strings are \<open>string\<close>s (byte lists). Field names carry the name of their struct,
  since several structs share field names (\<open>Reason\<close>, \<open>Message\<close>, \<open>Output\<close>, \<open>Spec\<close>).
  Only the fields read or written by the functions below are kept.
\<close>

type_synonym BuildReason = string

record Git =
  Git_URL :: string
  Git_CloneSecret :: "string option"

record Source =
  Source_Git :: "Git option"

record Image =
  Image_Image :: string
  Image_PushSecret :: "string option"
  Image_Timestamp :: "string option"

record Trigger =
  Trigger_When :: "string list"

record ParamValue =
  ParamValue_Name :: string
  ParamValue_Value :: "string option"

record EnvVar =
  EnvVar_Name :: string
  EnvVar_Value :: string

record BuildSpec =
  BuildSpec_Source :: "Source option"
  BuildSpec_Trigger :: "Trigger option"
  BuildSpec_Output :: Image
  BuildSpec_SchedulerName :: string

record BuildStatus =
  BuildStatus_Reason :: "BuildReason option"
  BuildStatus_Message :: "string option"

record Build =
  Build_Name :: string
  Build_Namespace :: string
  Build_Spec :: BuildSpec
  Build_Status :: BuildStatus

text \<open>\<open>BuildRun.Spec.Build\<close> is a \<open>ReferencedBuild\<close>: an inline spec, a name, both or neither.\<close>

record ReferencedBuild =
  ReferencedBuild_Spec :: "BuildSpec option"
  ReferencedBuild_Name :: "string option"

record BuildRunSpec =
  BuildRunSpec_Build :: ReferencedBuild
  BuildRunSpec_Output :: "Image option"
  BuildRunSpec_ParamValues :: "ParamValue list"
  BuildRunSpec_Env :: "EnvVar list"
  BuildRunSpec_Timeout :: "int option"

record BuildRun =
  BuildRun_Name :: string
  BuildRun_Spec :: BuildRunSpec


section \<open>pkg/validate/validate.go: BuildRunFields\<close>

text \<open>
  Modelled from the spec: the three reason constants live in package \<open>resources\<close>, which is
  not among the sources; their values are the reason codes the specification lists.
\<close>

definition BuildRunNoRefOrSpec :: string where
  "BuildRunNoRefOrSpec = ''NoRefOrSpec''"

definition BuildRunAmbiguousBuild :: string where
  "BuildRunAmbiguousBuild = ''AmbiguousBuild''"

definition BuildRunBuildFieldOverrideForbidden :: string where
  "BuildRunBuildFieldOverrideForbidden = ''BuildFieldOverrideForbidden''"

text \<open>
  The function reads its argument only and returns a pair of strings; the \<open>if\<close> chain is
  the one of the source, in its order. The last check looks at the trigger of the
  \<^emph>\<open>inline\<close> build spec.
\<close>

definition BuildRunFields :: "BuildRun \<Rightarrow> string \<times> string" where
  "BuildRunFields buildRun =
    (let spec = BuildRun_Spec buildRun; ref = BuildRunSpec_Build spec in
     if ReferencedBuild_Spec ref = None \<and> ReferencedBuild_Name ref = None then
       (BuildRunNoRefOrSpec,
        ''no build referenced or specified, either 'buildRef' or 'buildSpec' has to be set'')
     else
       (case ReferencedBuild_Spec ref of
          None \<Rightarrow> ('''', '''')
        | Some inline \<Rightarrow>
            if ReferencedBuild_Name ref \<noteq> None then
              (BuildRunAmbiguousBuild,
               ''fields 'buildRef' and 'buildSpec' are mutually exclusive'')
            else if BuildRunSpec_Output spec \<noteq> None then
              (BuildRunBuildFieldOverrideForbidden,
               ''cannot use 'output' override and 'buildSpec' simultaneously'')
            else if length (BuildRunSpec_ParamValues spec) > 0 then
              (BuildRunBuildFieldOverrideForbidden,
               ''cannot use 'paramValues' override and 'buildSpec' simultaneously'')
            else if length (BuildRunSpec_Env spec) > 0 then
              (BuildRunBuildFieldOverrideForbidden,
               ''cannot use 'env' override and 'buildSpec' simultaneously'')
            else if BuildRunSpec_Timeout spec \<noteq> None then
              (BuildRunBuildFieldOverrideForbidden,
               ''cannot use 'timeout' override and 'buildSpec' simultaneously'')
            else if BuildSpec_Trigger inline \<noteq> None then
              (BuildRunBuildFieldOverrideForbidden,
               ''cannot use 'triggers' override in the 'BuildRun', only allowed in the 'Build''
                 @ [CHR 0x27])
            else ('''', '''')))"

text \<open>
  The rule list as the specification words it: the five override fields in the fixed order
  output, paramValues, env, timeout, trigger, each with the test that makes it offending.
  \<open>offendingField\<close> is the first offending one, if any.
\<close>

definition overrideFields :: "BuildRun \<Rightarrow> BuildSpec \<Rightarrow> (string \<times> bool) list" where
  "overrideFields buildRun inline =
    [(''output'', BuildRunSpec_Output (BuildRun_Spec buildRun) \<noteq> None),
     (''paramValues'', BuildRunSpec_ParamValues (BuildRun_Spec buildRun) \<noteq> []),
     (''env'', BuildRunSpec_Env (BuildRun_Spec buildRun) \<noteq> []),
     (''timeout'', BuildRunSpec_Timeout (BuildRun_Spec buildRun) \<noteq> None),
     (''trigger'', BuildSpec_Trigger inline \<noteq> None)]"

definition offendingField :: "BuildRun \<Rightarrow> BuildSpec \<Rightarrow> string option" where
  "offendingField buildRun inline = map_option fst (find snd (overrideFields buildRun inline))"

text \<open>A message names a field when it starts with \<open>cannot use '<field>\<close>.\<close>

definition namesField :: "string \<Rightarrow> string \<Rightarrow> bool" where
  "namesField msg field = prefix (''cannot use '' @ [CHR 0x27] @ field) msg"

text \<open>Four requests: by name with overrides, inline with overrides, and (below) neither and both.\<close>

definition emptyImage :: Image where
  "emptyImage = \<lparr>Image_Image = ''registry/image'', Image_PushSecret = None, Image_Timestamp = None\<rparr>"

definition plainSpec :: BuildSpec where
  "plainSpec = \<lparr>BuildSpec_Source = None, BuildSpec_Trigger = None,
                BuildSpec_Output = emptyImage, BuildSpec_SchedulerName = ''''\<rparr>"

definition runByName :: BuildRun where
  "runByName = \<lparr>BuildRun_Name = ''run'', BuildRun_Spec =
     \<lparr>BuildRunSpec_Build = \<lparr>ReferencedBuild_Spec = None, ReferencedBuild_Name = Some ''a-build''\<rparr>,
      BuildRunSpec_Output = Some emptyImage,
      BuildRunSpec_ParamValues = [\<lparr>ParamValue_Name = ''p'', ParamValue_Value = Some ''v''\<rparr>],
      BuildRunSpec_Env = [\<lparr>EnvVar_Name = ''E'', EnvVar_Value = ''1''\<rparr>],
      BuildRunSpec_Timeout = Some 5\<rparr>\<rparr>"

definition runInline :: BuildRun where
  "runInline = \<lparr>BuildRun_Name = ''run'', BuildRun_Spec =
     \<lparr>BuildRunSpec_Build = \<lparr>ReferencedBuild_Spec = Some plainSpec, ReferencedBuild_Name = None\<rparr>,
      BuildRunSpec_Output = None,
      BuildRunSpec_ParamValues = [],
      BuildRunSpec_Env = [\<lparr>EnvVar_Name = ''E'', EnvVar_Value = ''1''\<rparr>],
      BuildRunSpec_Timeout = Some 5\<rparr>\<rparr>"

definition runNeither :: BuildRun where
  "runNeither = \<lparr>BuildRun_Name = ''run'', BuildRun_Spec =
     \<lparr>BuildRunSpec_Build = \<lparr>ReferencedBuild_Spec = None, ReferencedBuild_Name = None\<rparr>,
      BuildRunSpec_Output = Some emptyImage,
      BuildRunSpec_ParamValues = [],
      BuildRunSpec_Env = [],
      BuildRunSpec_Timeout = None\<rparr>\<rparr>"

definition runBoth :: BuildRun where
  "runBoth = \<lparr>BuildRun_Name = ''run'', BuildRun_Spec =
     \<lparr>BuildRunSpec_Build =
        \<lparr>ReferencedBuild_Spec = Some plainSpec, ReferencedBuild_Name = Some ''a-build''\<rparr>,
      BuildRunSpec_Output = Some emptyImage,
      BuildRunSpec_ParamValues = [],
      BuildRunSpec_Env = [\<lparr>EnvVar_Name = ''E'', EnvVar_Value = ''1''\<rparr>],
      BuildRunSpec_Timeout = Some 5\<rparr>\<rparr>"


section \<open>pkg/validate/validate.go: the chain runner All\<close>

text \<open>
  A Go \<open>error\<close> is a value carrying its text. A \<open>BuildPath\<close> is anything with a
  \<open>ValidatePath(ctx) error\<close> method; the method works on what its receiver points to, so a
  validator is a function from the state it can reach (the Build, the cluster behind the
  client, the context) to the returned error (\<open>None\<close> is \<open>nil\<close>) and the state it leaves.
\<close>

datatype error = Error string

type_synonym 's BuildPath = "'s \<Rightarrow> error option \<times> 's"

text \<open>
  \<open>All\<close> of the source; the name carries a suffix since \<open>All\<close> is the universal quantifier
  of the logic. The \<open>range\<close> loop returns at the first error and leaves the state as that
  validator left it.
\<close>

fun All_validations :: "'s BuildPath list \<Rightarrow> 's \<Rightarrow> error option \<times> 's" where
  "All_validations [] s = (None, s)"
| "All_validations (validatation # validations) s =
    (case validatation s of
       (Some err, s') \<Rightarrow> (Some err, s')
     | (None, s') \<Rightarrow> All_validations validations s')"

text \<open>
  Validators that leave a trace: each appends its name to a log, the first kind returns
  \<open>nil\<close>, the second a technical error.
\<close>

definition passing :: "string \<Rightarrow> (string list) BuildPath" where
  "passing nm log = (None, log @ [nm])"

definition failing :: "string \<Rightarrow> error \<Rightarrow> (string list) BuildPath" where
  "failing nm err log = (Some err, log @ [nm])"

text \<open>
  A validator whose answer depends on the state it is handed: it returns nil only when
  the validator named \<open>dep\<close> has left its trace.
\<close>

definition requiring :: "string \<Rightarrow> string \<Rightarrow> error \<Rightarrow> (string list) BuildPath" where
  "requiring nm dep err log =
    (if dep \<in> set log then (None, log @ [nm]) else (Some err, log @ [nm]))"


section \<open>The SchedulerName validator\<close>

text \<open>\<open>strings.Join\<close> of the Go standard library.\<close>

fun Join :: "string list \<Rightarrow> string \<Rightarrow> string" where
  "Join [] sep = ''''"
| "Join [e] sep = e"
| "Join (e # es) sep = e @ sep @ Join es sep"

text \<open>
  Modelled from the spec: the reason constants are declared with the API types, which are
  not among the sources; their values are the reason codes of the specification's table.
\<close>

definition SchedulerNameNotValid :: BuildReason where
  "SchedulerNameNotValid = ''SchedulerNameNotValid''"

definition SpecEnvNameCanNotBeBlank :: BuildReason where
  "SpecEnvNameCanNotBeBlank = ''SpecEnvNameCanNotBeBlank''"

definition SpecSourceSecretRefNotFound :: BuildReason where
  "SpecSourceSecretRefNotFound = ''SpecSourceSecretRefNotFound''"

definition SpecOutputSecretRefNotFound :: BuildReason where
  "SpecOutputSecretRefNotFound = ''SpecOutputSecretRefNotFound''"

definition MultipleSecretRefNotFound :: BuildReason where
  "MultipleSecretRefNotFound = ''MultipleSecretRefNotFound''"

text \<open>
  \<open>validation.IsQualifiedName\<close> belongs to the Kubernetes library, so the validator takes it
  as its first argument: a function from a name to the list of its syntax errors. The
  receiver's Build pointer is the Build the method works on.
\<close>

definition SchedulerNameRef_ValidatePath :: "(string \<Rightarrow> string list) \<Rightarrow> Build BuildPath" where
  "SchedulerNameRef_ValidatePath IsQualifiedName b =
    (if BuildSpec_SchedulerName (Build_Spec b) \<noteq> '''' then
       (let errs = IsQualifiedName (BuildSpec_SchedulerName (Build_Spec b)) in
        if length errs > 0 then
          (None, b\<lparr>Build_Status := (Build_Status b)
                    \<lparr>BuildStatus_Reason := Some SchedulerNameNotValid,
                     BuildStatus_Message := Some (Join errs '', '')\<rparr>\<rparr>)
        else (None, b))
     else (None, b))"

text \<open>
  A stand-in for the library function on concrete runs: it reports the length error for a
  name of more than 63 bytes (the reconciler test for node selectors expects that error for
  a key of 64 letters) and nothing else.
\<close>

definition lengthOnlyQualifiedName :: "string \<Rightarrow> string list" where
  "lengthOnlyQualifiedName v =
    (if length v > 63 then [''name part must be no more than 63 characters''] else [])"

text \<open>A validator that reports a semantic failure: it writes reason and message, returns \<open>nil\<close>.\<close>

definition reporting :: "BuildReason \<Rightarrow> string \<Rightarrow> Build BuildPath" where
  "reporting reason msg b =
    (None, b\<lparr>Build_Status := (Build_Status b)
              \<lparr>BuildStatus_Reason := Some reason, BuildStatus_Message := Some msg\<rparr>\<rparr>)"

definition sampleBuild :: "string \<Rightarrow> string option \<Rightarrow> string option \<Rightarrow> Build" where
  "sampleBuild schedulerName cloneSecret pushSecret =
    \<lparr>Build_Name = ''buildah-golang-build'', Build_Namespace = ''build-examples'',
     Build_Spec =
       \<lparr>BuildSpec_Source = Some \<lparr>Source_Git = Some
           \<lparr>Git_URL = ''https://github.com/shipwright-io/sample-go'',
            Git_CloneSecret = cloneSecret\<rparr>\<rparr>,
        BuildSpec_Trigger = None,
        BuildSpec_Output = \<lparr>Image_Image = ''registry/image'', Image_PushSecret = pushSecret,
                            Image_Timestamp = None\<rparr>,
        BuildSpec_SchedulerName = schedulerName\<rparr>,
     Build_Status = \<lparr>BuildStatus_Reason = None, BuildStatus_Message = None\<rparr>\<rparr>"


section \<open>The Credentials validator\<close>

text \<open>
  What the resource client answers to \<open>get(kind, namespace, name)\<close> for a secret: the
  object, NotFound, or a failure of the infrastructure.
\<close>

datatype getResult = Found | NotFound | Unreachable error

type_synonym secretClient = "string \<Rightarrow> string \<Rightarrow> getResult"

text \<open>
  Modelled from the spec: the secrets a Build references, the clone secret first
  (\<open>Spec.Source.Git.CloneSecret\<close>, through its three pointers), then the push secret
  (\<open>Spec.Output.PushSecret\<close>), each with the reason reported when it alone is missing; and
  the first failure among the client's answers. These serve the validator below.
\<close>

definition cloneSecretOf :: "Build \<Rightarrow> string option" where
  "cloneSecretOf b =
    (case BuildSpec_Source (Build_Spec b) of
       None \<Rightarrow> None
     | Some src \<Rightarrow> (case Source_Git src of None \<Rightarrow> None | Some git \<Rightarrow> Git_CloneSecret git))"

definition pushSecretOf :: "Build \<Rightarrow> string option" where
  "pushSecretOf b = Image_PushSecret (BuildSpec_Output (Build_Spec b))"

definition secretRefs :: "Build \<Rightarrow> (string \<times> BuildReason) list" where
  "secretRefs b =
    (case cloneSecretOf b of None \<Rightarrow> [] | Some n \<Rightarrow> [(n, SpecSourceSecretRefNotFound)]) @
    (case pushSecretOf b of None \<Rightarrow> [] | Some n \<Rightarrow> [(n, SpecOutputSecretRefNotFound)])"

fun firstUnreachable :: "getResult list \<Rightarrow> error option" where
  "firstUnreachable [] = None"
| "firstUnreachable (Unreachable err # rs) = Some err"
| "firstUnreachable (r # rs) = firstUnreachable rs"

text \<open>
  Modelled from the spec: the Credentials validator itself is not among the sources, only
  the reconciler test that drives it. The specification has it check that the referenced
  clone and push secrets exist: a failure of the client is returned as a technical error
  and sets no status; one missing secret sets the reason of its kind; both missing set
  MultipleSecretRefNotFound with both names joined in alphabetical order. The message
  texts are the ones the reconciler test expects. Alphabetical order is the order of
  \<open>sort.Strings\<close>: bytewise lexicographic.
\<close>

definition Credentials_ValidatePath :: "secretClient \<Rightarrow> Build BuildPath" where
  "Credentials_ValidatePath client b =
    (let refs = secretRefs b;
         answers = map (\<lambda>ref. client (Build_Namespace b) (fst ref)) refs
     in case firstUnreachable answers of
          Some err \<Rightarrow> (Some err, b)
        | None \<Rightarrow>
            (case filter (\<lambda>ref. client (Build_Namespace b) (fst ref) = NotFound) refs of
               [] \<Rightarrow> (None, b)
             | [missing] \<Rightarrow>
                 (None, b\<lparr>Build_Status := (Build_Status b)
                    \<lparr>BuildStatus_Reason := Some (snd missing),
                     BuildStatus_Message :=
                       Some (''referenced secret '' @ fst missing @ '' not found'')\<rparr>\<rparr>)
             | missing \<Rightarrow>
                 (None, b\<lparr>Build_Status := (Build_Status b)
                    \<lparr>BuildStatus_Reason := Some MultipleSecretRefNotFound,
                     BuildStatus_Message :=
                       Some (''missing secrets are '' @ Join (sort (map fst missing)) '','')\<rparr>\<rparr>)))"

text \<open>The client of the reconciler test: every secret is NotFound.\<close>

definition noSecrets :: secretClient where
  "noSecrets namespace nm = NotFound"


section \<open>AmendTaskSpecWithSources\<close>

text \<open>
  The Build of the older API (v1alpha1) as this function reads it: \<open>Spec.Source\<close> is a
  value, \<open>Spec.Sources\<close> a pointer to a slice. A Tekton task spec is its list of steps.
\<close>

record Step =
  Step_Name :: string
  Step_Image :: string
  Step_Args :: "string list"

record TaskSpec =
  TaskSpec_Steps :: "Step list"

record GitSource =
  GitSource_URL :: string

record HttpSource =
  HttpSource_Name :: string
  HttpSource_URL :: string

record SourcesSpec =
  SourcesSpec_Source :: GitSource
  SourcesSpec_Sources :: "HttpSource list option"

text \<open>
  The function as the source has it; the two step appenders of package \<open>sources\<close> are its
  first two arguments. The \<open>range\<close> loop over the slice is a left fold.
\<close>

definition AmendTaskSpecWithSources ::
  "('cfg \<Rightarrow> TaskSpec \<Rightarrow> GitSource \<Rightarrow> string \<Rightarrow> TaskSpec) \<Rightarrow>
   ('cfg \<Rightarrow> TaskSpec \<Rightarrow> HttpSource \<Rightarrow> TaskSpec) \<Rightarrow>
   'cfg \<Rightarrow> TaskSpec \<Rightarrow> SourcesSpec \<Rightarrow> TaskSpec" where
  "AmendTaskSpecWithSources appendGit appendHttp cfg taskSpec spec =
    (let withGit = appendGit cfg taskSpec (SourcesSpec_Source spec) ''default'' in
     case SourcesSpec_Sources spec of
       None \<Rightarrow> withGit
     | Some srcs \<Rightarrow> foldl (\<lambda>t source. appendHttp cfg t source) withGit srcs)"

text \<open>
  Modelled from the spec: \<open>sources.AppendGitStep\<close> is not among the sources. The
  specification has the compiler append one step for the default source, under the stable
  name it is given, the step itself assembled by the builder of the source kind, a pure
  function of configuration and descriptor (here \<open>gitStep\<close>).
\<close>

definition AppendGitStep ::
  "('cfg \<Rightarrow> GitSource \<Rightarrow> Step) \<Rightarrow> 'cfg \<Rightarrow> TaskSpec \<Rightarrow> GitSource \<Rightarrow> string \<Rightarrow> TaskSpec" where
  "AppendGitStep gitStep cfg taskSpec source nm =
    taskSpec\<lparr>TaskSpec_Steps := TaskSpec_Steps taskSpec @ [(gitStep cfg source)\<lparr>Step_Name := nm\<rparr>]\<rparr>"

text \<open>
  Modelled from the spec: \<open>sources.AppendHttpStep\<close> is not among the sources. The
  specification has the compiler append one step per auxiliary source, assembled by the
  builder of the source kind (here \<open>httpStep\<close>).
\<close>

definition AppendHttpStep ::
  "('cfg \<Rightarrow> HttpSource \<Rightarrow> Step) \<Rightarrow> 'cfg \<Rightarrow> TaskSpec \<Rightarrow> HttpSource \<Rightarrow> TaskSpec" where
  "AppendHttpStep httpStep cfg taskSpec source =
    taskSpec\<lparr>TaskSpec_Steps := TaskSpec_Steps taskSpec @ [httpStep cfg source]\<rparr>"

text \<open>Sample builders and a build with two auxiliary sources.\<close>

definition gitStepOf :: "string \<Rightarrow> GitSource \<Rightarrow> Step" where
  "gitStepOf img source =
    \<lparr>Step_Name = ''git'', Step_Image = img, Step_Args = [''--url'', GitSource_URL source]\<rparr>"

definition httpStepOf :: "string \<Rightarrow> HttpSource \<Rightarrow> Step" where
  "httpStepOf img source =
    \<lparr>Step_Name = ''sources-'' @ HttpSource_Name source, Step_Image = img,
     Step_Args = [''wget'', HttpSource_URL source]\<rparr>"

definition sourceX :: HttpSource where
  "sourceX = \<lparr>HttpSource_Name = ''X'', HttpSource_URL = ''https://example.com/x.tar''\<rparr>"

definition sourceY :: HttpSource where
  "sourceY = \<lparr>HttpSource_Name = ''Y'', HttpSource_URL = ''https://example.com/y.tar''\<rparr>"

definition twoSources :: SourcesSpec where
  "twoSources =
    \<lparr>SourcesSpec_Source = \<lparr>GitSource_URL = ''https://github.com/shipwright-io/sample-go''\<rparr>,
     SourcesSpec_Sources = Some [sourceX, sourceY]\<rparr>"


section \<open>UpdateBuildRunUsingTaskFailures\<close>

text \<open>
  The Tekton TaskRun and the BuildRun of the older API, as the function's test builds them:
  a TaskRun status is a list of conditions and a list of step states; a step state may
  carry a terminated container state with its message; a condition has a type, a status
  (a string, empty when not set) and a reason; the BuildRun status has an optional failure.
\<close>

record Condition =
  Condition_Type :: string
  Condition_Status :: string
  Condition_Reason :: string

record ContainerStateTerminated =
  ContainerStateTerminated_Message :: string

record StepState =
  StepState_Terminated :: "ContainerStateTerminated option"

record TaskRunStatus =
  TaskRunStatus_Conditions :: "Condition list"
  TaskRunStatus_Steps :: "StepState list"

record TaskRun =
  TaskRun_Status :: TaskRunStatus

record PipelineResourceResult =
  PipelineResourceResult_Key :: string
  PipelineResourceResult_Value :: string

record Failure =
  Failure_Reason :: string
  Failure_Message :: string

record BuildRunStatus =
  BuildRunStatus_Failure :: "Failure option"

record BuildRunV1alpha1 =
  BuildRunV1alpha1_Status :: BuildRunStatus

text \<open>The constants of the libraries the test names.\<close>

definition ConditionSucceeded :: string where
  "ConditionSucceeded = ''Succeeded''"

definition ConditionReady :: string where
  "ConditionReady = ''Ready''"

definition TaskRunReasonFailed :: string where
  "TaskRunReasonFailed = ''Failed''"

text \<open>\<open>GetCondition\<close>: the condition of the given type, \<open>nil\<close> when there is none.\<close>

definition GetCondition :: "string \<Rightarrow> Condition list \<Rightarrow> Condition option" where
  "GetCondition t conds = find (\<lambda>c. Condition_Type c = t) conds"

text \<open>
  Modelled from the spec: the two key suffixes are constants that are not among the
  sources; the specification gives the well-known keys as the fixed prefix followed by
  \<open>-result-error-reason\<close> and \<open>-result-error-message\<close>. The test builds each key from the
  prefix, a dash and the suffix. The prefix is a parameter.
\<close>

definition resultErrorReason :: string where
  "resultErrorReason = ''result-error-reason''"

definition resultErrorMessage :: string where
  "resultErrorMessage = ''result-error-message''"

definition errorReasonKey :: "string \<Rightarrow> string" where
  "errorReasonKey prefixParamsResultsVolumes = prefixParamsResultsVolumes @ ''-'' @ resultErrorReason"

definition errorMessageKey :: "string \<Rightarrow> string" where
  "errorMessageKey prefixParamsResultsVolumes = prefixParamsResultsVolumes @ ''-'' @ resultErrorMessage"

text \<open>
  Modelled from the spec: the scan of the steps. The steps are visited in order; the one
  looked at is the first whose termination message is there and parses as a JSON array of
  key and value entries. Parsing is \<open>json.Unmarshal\<close> of the Go library, a parameter:
  \<open>None\<close> is its error.
\<close>

fun firstParsed ::
  "(string \<Rightarrow> PipelineResourceResult list option) \<Rightarrow> StepState list \<Rightarrow>
   PipelineResourceResult list option" where
  "firstParsed unmarshal [] = None"
| "firstParsed unmarshal (step # steps) =
    (case StepState_Terminated step of
       None \<Rightarrow> firstParsed unmarshal steps
     | Some terminated \<Rightarrow>
         (case unmarshal (ContainerStateTerminated_Message terminated) of
            None \<Rightarrow> firstParsed unmarshal steps
          | Some results \<Rightarrow> Some results))"

definition resultValue :: "string \<Rightarrow> PipelineResourceResult list \<Rightarrow> string option" where
  "resultValue k results =
    map_option PipelineResourceResult_Value (find (\<lambda>r. PipelineResourceResult_Key r = k) results)"

text \<open>
  Modelled from the spec: the failure the steps yield, if both well-known keys are found;
  unrelated keys are passed over.
\<close>

definition extractFailure ::
  "(string \<Rightarrow> PipelineResourceResult list option) \<Rightarrow> string \<Rightarrow> TaskRun \<Rightarrow> Failure option" where
  "extractFailure unmarshal pfx taskRun =
    (case firstParsed unmarshal (TaskRunStatus_Steps (TaskRun_Status taskRun)) of
       None \<Rightarrow> None
     | Some results \<Rightarrow>
         (case resultValue (errorReasonKey pfx) results of
            None \<Rightarrow> None
          | Some reason \<Rightarrow>
              (case resultValue (errorMessageKey pfx) results of
                 None \<Rightarrow> None
               | Some msg \<Rightarrow> Some \<lparr>Failure_Reason = reason, Failure_Message = msg\<rparr>)))"

text \<open>
  Modelled from the spec: \<open>UpdateBuildRunUsingTaskFailures\<close> is not among the sources, only
  its test is. The function does nothing unless the TaskRun has the failed completion
  condition; then it sets the failure when the steps yield one and leaves the BuildRun
  untouched otherwise. It returns nothing, so no error can be raised. The failed condition
  is recognised as the test has it: the test "surfaces errors to BuildRun in failed TaskRun"
  gives the condition the type Succeeded and the reason Failed and sets no status, and
  expects the failure to be filled in; so the condition of type Succeeded is looked up and
  its reason compared, and its status is not read.
\<close>

definition UpdateBuildRunUsingTaskFailures ::
  "(string \<Rightarrow> PipelineResourceResult list option) \<Rightarrow> string \<Rightarrow> BuildRunV1alpha1 \<Rightarrow> TaskRun \<Rightarrow> BuildRunV1alpha1" where
  "UpdateBuildRunUsingTaskFailures unmarshal pfx buildRun taskRun =
    (case GetCondition ConditionSucceeded (TaskRunStatus_Conditions (TaskRun_Status taskRun)) of
       None \<Rightarrow> buildRun
     | Some trCondition \<Rightarrow>
         if Condition_Reason trCondition = TaskRunReasonFailed then
           (case extractFailure unmarshal pfx taskRun of
              None \<Rightarrow> buildRun
            | Some failure \<Rightarrow>
                buildRun\<lparr>BuildRunV1alpha1_Status := (BuildRunV1alpha1_Status buildRun)
                           \<lparr>BuildRunStatus_Failure := Some failure\<rparr>\<rparr>)
         else buildRun)"

text \<open>
  The condition the specification words: type Succeeded, status False, reason Failed.
\<close>

definition isFailedCondition :: "Condition \<Rightarrow> bool" where
  "isFailedCondition c \<longleftrightarrow>
    Condition_Type c = ConditionSucceeded \<and> Condition_Status c = ''False'' \<and>
    Condition_Reason c = TaskRunReasonFailed"

text \<open>
  The values of the test: the three results, their JSON text, a decoder that knows the
  texts used here, the failed TaskRun (no status on its condition), and the empty BuildRun.
\<close>

definition errorReason :: PipelineResourceResult where
  "errorReason = \<lparr>PipelineResourceResult_Key = errorReasonKey ''shp'',
                  PipelineResourceResult_Value = ''val1''\<rparr>"

definition errorMessage :: PipelineResourceResult where
  "errorMessage = \<lparr>PipelineResourceResult_Key = errorMessageKey ''shp'',
                   PipelineResourceResult_Value = ''val2''\<rparr>"

definition unrelated :: PipelineResourceResult where
  "unrelated = \<lparr>PipelineResourceResult_Key = ''unrelated'',
                PipelineResourceResult_Value = ''unrelated''\<rparr>"

definition messageWithErrors :: string where
  \<open>messageWithErrors = ''[{"key":"shp-result-error-reason","value":"val1"},'' @
     ''{"key":"shp-result-error-message","value":"val2"},'' @
     ''{"key":"unrelated","value":"unrelated"}]''\<close>

definition messageUnrelated :: string where
  \<open>messageUnrelated = ''[{"key":"unrelated","value":"unrelated"}]''\<close>

definition decodeKnown :: "string \<Rightarrow> PipelineResourceResult list option" where
  "decodeKnown text =
    (if text = messageWithErrors then Some [errorReason, errorMessage, unrelated]
     else if text = messageUnrelated then Some [unrelated]
     else None)"

definition terminatedWith :: "string \<Rightarrow> StepState" where
  "terminatedWith msg =
    \<lparr>StepState_Terminated = Some \<lparr>ContainerStateTerminated_Message = msg\<rparr>\<rparr>"

definition taskRunOf :: "Condition list \<Rightarrow> StepState list \<Rightarrow> TaskRun" where
  "taskRunOf conds steps =
    \<lparr>TaskRun_Status = \<lparr>TaskRunStatus_Conditions = conds, TaskRunStatus_Steps = steps\<rparr>\<rparr>"

definition redTaskRun :: TaskRun where
  "redTaskRun = taskRunOf
     [\<lparr>Condition_Type = ConditionSucceeded, Condition_Status = '''',
       Condition_Reason = TaskRunReasonFailed\<rparr>]
     [terminatedWith messageWithErrors]"


definition redBuild :: BuildRunV1alpha1 where
  "redBuild = \<lparr>BuildRunV1alpha1_Status = \<lparr>BuildRunStatus_Failure = None\<rparr>\<rparr>"


section \<open>Theorems\<close>

subsection \<open>BuildRunFields\<close>

text \<open>
  C2. BuildRunFields applies its rules in a fixed order, the first match winning: neither
  inline spec nor build name gives NoRefOrSpec; both give AmbiguousBuild, whatever the
  override fields hold; an inline spec with an offending field among output, paramValues,
  env, timeout, trigger gives BuildFieldOverrideForbidden with a message naming the first
  offending field in that order; everything else gives the pair of empty strings. The
  function is a total function of its argument to a pair of strings: it has no state to
  change and no error to return.
\<close>

theorem BuildRunFields_rules:
  "(ReferencedBuild_Spec (BuildRunSpec_Build (BuildRun_Spec buildRun)) = None \<and>
    ReferencedBuild_Name (BuildRunSpec_Build (BuildRun_Spec buildRun)) = None \<longrightarrow>
      fst (BuildRunFields buildRun) = BuildRunNoRefOrSpec) \<and>
   (ReferencedBuild_Spec (BuildRunSpec_Build (BuildRun_Spec buildRun)) \<noteq> None \<and>
    ReferencedBuild_Name (BuildRunSpec_Build (BuildRun_Spec buildRun)) \<noteq> None \<longrightarrow>
      fst (BuildRunFields buildRun) = BuildRunAmbiguousBuild) \<and>
   (ReferencedBuild_Spec (BuildRunSpec_Build (BuildRun_Spec buildRun)) = Some inline \<and>
    ReferencedBuild_Name (BuildRunSpec_Build (BuildRun_Spec buildRun)) = None \<longrightarrow>
      (case offendingField buildRun inline of
         Some field \<Rightarrow>
           fst (BuildRunFields buildRun) = BuildRunBuildFieldOverrideForbidden \<and>
           namesField (snd (BuildRunFields buildRun)) field
       | None \<Rightarrow> BuildRunFields buildRun = ('''', ''''))) \<and>
   (ReferencedBuild_Spec (BuildRunSpec_Build (BuildRun_Spec buildRun)) = None \<and>
    ReferencedBuild_Name (BuildRunSpec_Build (BuildRun_Spec buildRun)) \<noteq> None \<longrightarrow>
      BuildRunFields buildRun = ('''', ''''))"
  by (auto simp add: BuildRunFields_def offendingField_def overrideFields_def namesField_def
        Let_def)

theorem BuildRunFields_rules_witness:
  "fst (BuildRunFields runNeither) = ''NoRefOrSpec'' \<and>
   fst (BuildRunFields runBoth) = ''AmbiguousBuild'' \<and>
   offendingField runInline plainSpec = Some ''env'' \<and>
   fst (BuildRunFields runInline) = ''BuildFieldOverrideForbidden'' \<and>
   namesField (snd (BuildRunFields runInline)) ''env'' \<and>
   BuildRunFields runByName = ('''', '''')"
  using BuildRunFields_rules [of runNeither plainSpec] BuildRunFields_rules [of runBoth plainSpec]
    BuildRunFields_rules [of runInline plainSpec] BuildRunFields_rules [of runByName plainSpec]
  by (simp add: runNeither_def runBoth_def runInline_def runByName_def offendingField_def
        overrideFields_def BuildRunNoRefOrSpec_def BuildRunAmbiguousBuild_def
        BuildRunBuildFieldOverrideForbidden_def)

text \<open>
  C10. A BuildRun with no inline build spec and with a build reference name is free of
  conflicts, whatever its output, paramValues, env and timeout overrides hold: the
  override rules are reached only under an inline spec.
\<close>

theorem BuildRunFields_reference_allows_overrides:
  "ReferencedBuild_Spec ref = None \<Longrightarrow> ReferencedBuild_Name ref \<noteq> None \<Longrightarrow>
   BuildRunFields \<lparr>BuildRun_Name = nm, BuildRun_Spec =
      \<lparr>BuildRunSpec_Build = ref, BuildRunSpec_Output = output,
       BuildRunSpec_ParamValues = paramValues, BuildRunSpec_Env = env,
       BuildRunSpec_Timeout = timeout\<rparr>\<rparr> = ('''', '''')"
  by (auto simp add: BuildRunFields_def)

theorem BuildRunFields_reference_allows_overrides_witness:
  "ReferencedBuild_Spec (BuildRunSpec_Build (BuildRun_Spec runByName)) = None \<and>
   ReferencedBuild_Name (BuildRunSpec_Build (BuildRun_Spec runByName)) = Some ''a-build'' \<and>
   BuildRunSpec_Output (BuildRun_Spec runByName) \<noteq> None \<and>
   BuildRunSpec_ParamValues (BuildRun_Spec runByName) \<noteq> [] \<and>
   BuildRunSpec_Env (BuildRun_Spec runByName) \<noteq> [] \<and>
   BuildRunSpec_Timeout (BuildRun_Spec runByName) \<noteq> None \<and>
   BuildRunFields runByName = ('''', '''')"
  using BuildRunFields_reference_allows_overrides
    [of "\<lparr>ReferencedBuild_Spec = None, ReferencedBuild_Name = Some ''a-build''\<rparr>"
        "''run''" "Some emptyImage"
        "[\<lparr>ParamValue_Name = ''p'', ParamValue_Value = Some ''v''\<rparr>]"
        "[\<lparr>EnvVar_Name = ''E'', EnvVar_Value = ''1''\<rparr>]" "Some 5"]
  by (simp add: runByName_def)


subsection \<open>The chain runner\<close>

lemma All_validations_append:
  "All_validations pre s = (None, s1) \<Longrightarrow>
   All_validations (pre @ post) s = All_validations post s1"
proof (induction pre arbitrary: s)
  case Nil
  then show ?case by simp
next
  case (Cons v pre)
  obtain r t where vs: "v s = (r, t)" by (cases "v s")
  with Cons.prems have r: "r = None" by (cases r) auto
  with vs Cons.prems have "All_validations pre t = (None, s1)" by simp
  then have "All_validations (pre @ post) t = All_validations post s1" by (rule Cons.IH)
  with vs r show ?case by simp
qed

lemma All_validations_skip_passing:
  "length after = k \<Longrightarrow> k \<le> length vs \<Longrightarrow>
   (\<forall>i < k. (vs ! i) ((s # after) ! i) = (None, after ! i)) \<Longrightarrow>
   All_validations vs s = All_validations (drop k vs) ((s # after) ! k)"
proof (induction vs arbitrary: s after k)
  case Nil
  then show ?case by simp
next
  case (Cons v vs)
  show ?case
  proof (cases after)
    case Nil
    with Cons.prems show ?thesis by simp
  next
    case (Cons a rest)
    with Cons.prems obtain j where k: "k = Suc j" and j: "length rest = j" "j \<le> length vs"
      by (cases k) auto
    from Cons.prems(3) k Cons have first: "v s = (None, a)" by auto
    have "\<forall>i < j. (vs ! i) ((a # rest) ! i) = (None, rest ! i)"
    proof (intro allI impI)
      fix i assume "i < j"
      then have "Suc i < k" using k by simp
      with Cons.prems(3) have "((v # vs) ! Suc i) ((s # after) ! Suc i) = (None, after ! Suc i)"
        by blast
      with Cons show "(vs ! i) ((a # rest) ! i) = (None, rest ! i)" by simp
    qed
    with j have "All_validations vs a = All_validations (drop j vs) ((a # rest) ! j)"
      by (intro Cons.IH) auto
    with first k Cons show ?thesis by simp
  qed
qed

text \<open>
  C3. All runs the validators in the order given, each on the state its predecessor left:
  \<open>s # after\<close> lists the states the validators see, \<open>after ! i\<close> being the state validator
  \<open>i\<close> leaves. If every validator returns nil, All returns nil and the state the last one
  left. If the validators before the one at \<open>k\<close> return nil and that one returns an error,
  All returns that error and the state that validator left, whatever validators follow it
  and whatever they would do: none of them is run.
\<close>

theorem All_stops_at_first_error:
  "(length after = length vs \<and>
    (\<forall>i < length vs. (vs ! i) ((s # after) ! i) = (None, after ! i)) \<longrightarrow>
      All_validations vs s = (None, (s # after) ! length vs)) \<and>
   (k < length vs \<and> length after = k \<and>
    (\<forall>i < k. (vs ! i) ((s # after) ! i) = (None, after ! i)) \<and>
    (vs ! k) ((s # after) ! k) = (Some e, s') \<longrightarrow>
      All_validations vs s = (Some e, s'))"
proof (intro conjI impI)
  assume h: "length after = length vs \<and>
    (\<forall>i < length vs. (vs ! i) ((s # after) ! i) = (None, after ! i))"
  then have "All_validations vs s =
      All_validations (drop (length vs) vs) ((s # after) ! length vs)"
    by (intro All_validations_skip_passing) auto
  then show "All_validations vs s = (None, (s # after) ! length vs)" by simp
next
  assume h: "k < length vs \<and> length after = k \<and>
    (\<forall>i < k. (vs ! i) ((s # after) ! i) = (None, after ! i)) \<and>
    (vs ! k) ((s # after) ! k) = (Some e, s')"
  then have "All_validations vs s = All_validations (drop k vs) ((s # after) ! k)"
    by (intro All_validations_skip_passing) auto
  moreover from h have "drop k vs = vs ! k # drop (Suc k) vs"
    by (simp add: Cons_nth_drop_Suc)
  ultimately show "All_validations vs s = (Some e, s')" using h by simp
qed

text \<open>
  Three validators that all return nil, the third only because the second has run before
  it; and a chain whose second validator fails, so that the third leaves no trace.
\<close>

theorem All_stops_at_first_error_witness:
  "All_validations
     [passing ''first'', passing ''second'', requiring ''third'' ''second'' (Error ''no second'')]
     [] = (None, [''first'', ''second'', ''third'']) \<and>
   All_validations
     [passing ''first'', failing ''second'' (Error ''client unreachable''), passing ''third'']
     [] = (Some (Error ''client unreachable''), [''first'', ''second''])"
proof -
  let ?vs1 = "[passing ''first'', passing ''second'',
               requiring ''third'' ''second'' (Error ''no second'')]"
  let ?after1 = "[[''first''], [''first'', ''second''], [''first'', ''second'', ''third'']]"
  let ?vs2 = "[passing ''first'', failing ''second'' (Error ''client unreachable''),
               passing ''third'']"
  have p1: "length ?after1 = length ?vs1 \<and>
      (\<forall>i < length ?vs1. (?vs1 ! i) (([] # ?after1) ! i) = (None, ?after1 ! i))"
    by (simp add: All_less_Suc passing_def requiring_def)
  have p2: "(1::nat) < length ?vs2 \<and> length [[''first'']] = (1::nat) \<and>
      (\<forall>i < (1::nat). (?vs2 ! i) (([] # [[''first'']]) ! i) = (None, [[''first'']] ! i)) \<and>
      (?vs2 ! 1) (([] # [[''first'']]) ! 1) =
        (Some (Error ''client unreachable''), [''first'', ''second''])"
    by (simp add: passing_def failing_def)
  from All_stops_at_first_error [of ?after1 ?vs1 "[]"] p1
  have "All_validations ?vs1 [] = (None, ([] # ?after1) ! length ?vs1)" by blast
  moreover from All_stops_at_first_error [of "[[''first'']]" ?vs2 "[]" 1
      "Error ''client unreachable''" "[''first'', ''second'']"] p2
  have "All_validations ?vs2 [] = (Some (Error ''client unreachable''), [''first'', ''second''])"
    by blast
  ultimately show ?thesis by simp
qed


subsection \<open>The SchedulerName validator\<close>

text \<open>
  C8. For a Build whose scheduler name is not empty and fails the qualified-name check,
  the validator sets the status reason to SchedulerNameNotValid and the status message to
  the errors joined by a comma and a blank, and returns nil; and it returns nil on every
  Build, whatever the library function answers.
\<close>

theorem SchedulerNameRef_reports_by_status:
  "(BuildSpec_SchedulerName (Build_Spec b) \<noteq> '''' \<and>
    IsQualifiedName (BuildSpec_SchedulerName (Build_Spec b)) \<noteq> [] \<longrightarrow>
      SchedulerNameRef_ValidatePath IsQualifiedName b =
        (None, b\<lparr>Build_Status := (Build_Status b)
           \<lparr>BuildStatus_Reason := Some SchedulerNameNotValid,
            BuildStatus_Message :=
              Some (Join (IsQualifiedName (BuildSpec_SchedulerName (Build_Spec b))) '', '')\<rparr>\<rparr>)) \<and>
   fst (SchedulerNameRef_ValidatePath IsQualifiedName b) = None"
  by (simp add: SchedulerNameRef_ValidatePath_def Let_def)

theorem SchedulerNameRef_reports_by_status_witness:
  "BuildSpec_SchedulerName (Build_Spec (sampleBuild (replicate 64 CHR ''s'') None None)) \<noteq> '''' \<and>
   lengthOnlyQualifiedName (replicate 64 CHR ''s'') \<noteq> [] \<and>
   SchedulerNameRef_ValidatePath lengthOnlyQualifiedName
       (sampleBuild (replicate 64 CHR ''s'') None None) =
     (None, (sampleBuild (replicate 64 CHR ''s'') None None)
        \<lparr>Build_Status := \<lparr>BuildStatus_Reason = Some ''SchedulerNameNotValid'',
           BuildStatus_Message = Some ''name part must be no more than 63 characters''\<rparr>\<rparr>)"
  using SchedulerNameRef_reports_by_status
    [of "sampleBuild (replicate 64 CHR ''s'') None None" lengthOnlyQualifiedName]
  by (simp add: sampleBuild_def lengthOnlyQualifiedName_def SchedulerNameNotValid_def)

text \<open>
  C1, as stated, fails. A first validator reports a blank environment variable name; the
  SchedulerName validator runs next in the same pass, on a scheduler name of 64 letters,
  and replaces that reason by its own.
\<close>

theorem first_reason_overwritten_counterexample:
  "BuildStatus_Reason (Build_Status (snd (
      reporting SpecEnvNameCanNotBeBlank ''name for environment variable must not be blank''
        (sampleBuild (replicate 64 CHR ''s'') None None)))) = Some ''SpecEnvNameCanNotBeBlank'' \<and>
   BuildStatus_Reason (Build_Status (snd (All_validations
      [reporting SpecEnvNameCanNotBeBlank ''name for environment variable must not be blank'',
       SchedulerNameRef_ValidatePath lengthOnlyQualifiedName]
      (sampleBuild (replicate 64 CHR ''s'') None None)))) = Some ''SchedulerNameNotValid''"
  by (simp add: reporting_def SchedulerNameRef_ValidatePath_def lengthOnlyQualifiedName_def
        sampleBuild_def SpecEnvNameCanNotBeBlank_def SchedulerNameNotValid_def)

text \<open>
  C1, amended. All does not look at the status, and the SchedulerName validator does not
  ask whether a reason is set. Run after validators that returned nil and left the Build
  \<open>b1\<close>, it replaces reason and message when the scheduler name is not empty and fails the
  qualified-name check, and leaves \<open>b1\<close>, with the reason it carries, as it is when the
  scheduler name is empty or valid.
\<close>

theorem SchedulerName_after_chain:
  assumes "All_validations pre b = (None, b1)"
  shows "All_validations (pre @ [SchedulerNameRef_ValidatePath IsQualifiedName]) b =
     (None,
      if BuildSpec_SchedulerName (Build_Spec b1) \<noteq> '''' \<and>
         IsQualifiedName (BuildSpec_SchedulerName (Build_Spec b1)) \<noteq> []
      then b1\<lparr>Build_Status := (Build_Status b1)
              \<lparr>BuildStatus_Reason := Some SchedulerNameNotValid,
               BuildStatus_Message :=
                 Some (Join (IsQualifiedName (BuildSpec_SchedulerName (Build_Spec b1))) '', '')\<rparr>\<rparr>
      else b1)"
  using assms by (simp add: All_validations_append SchedulerNameRef_ValidatePath_def Let_def)

theorem SchedulerName_after_chain_witness:
  "All_validations
      [reporting SpecEnvNameCanNotBeBlank ''name for environment variable must not be blank'']
      (sampleBuild ''default-scheduler'' None None) =
     (None, (sampleBuild ''default-scheduler'' None None)
        \<lparr>Build_Status := \<lparr>BuildStatus_Reason = Some SpecEnvNameCanNotBeBlank,
           BuildStatus_Message = Some ''name for environment variable must not be blank''\<rparr>\<rparr>) \<and>
   All_validations
      ([reporting SpecEnvNameCanNotBeBlank ''name for environment variable must not be blank'']
         @ [SchedulerNameRef_ValidatePath lengthOnlyQualifiedName])
      (sampleBuild ''default-scheduler'' None None) =
     (None, (sampleBuild ''default-scheduler'' None None)
        \<lparr>Build_Status := \<lparr>BuildStatus_Reason = Some SpecEnvNameCanNotBeBlank,
           BuildStatus_Message = Some ''name for environment variable must not be blank''\<rparr>\<rparr>)"
  using SchedulerName_after_chain [of
    "[reporting SpecEnvNameCanNotBeBlank ''name for environment variable must not be blank'']"
    "sampleBuild ''default-scheduler'' None None"
    "(sampleBuild ''default-scheduler'' None None)
       \<lparr>Build_Status := \<lparr>BuildStatus_Reason = Some SpecEnvNameCanNotBeBlank,
          BuildStatus_Message = Some ''name for environment variable must not be blank''\<rparr>\<rparr>"
    lengthOnlyQualifiedName]
  by (simp add: reporting_def sampleBuild_def lengthOnlyQualifiedName_def)


subsection \<open>The Credentials validator\<close>

lemma sort_test_secrets:
  "sort [''non-existing-source'', ''non-existing-output''] =
     [''non-existing-output'', ''non-existing-source'']"
  by code_simp

text \<open>
  C9. For a Build that references a clone secret and a push secret, neither of which
  exists, the validator sets the reason MultipleSecretRefNotFound and a message that lists
  both names, sorted and joined by a comma, and returns nil.
\<close>

theorem Credentials_both_missing:
  assumes "cloneSecretOf b = Some clone" and "pushSecretOf b = Some push"
    and "client (Build_Namespace b) clone = NotFound"
    and "client (Build_Namespace b) push = NotFound"
  shows "Credentials_ValidatePath client b =
    (None, b\<lparr>Build_Status := (Build_Status b)
       \<lparr>BuildStatus_Reason := Some MultipleSecretRefNotFound,
        BuildStatus_Message :=
          Some (''missing secrets are '' @ Join (sort [clone, push]) '','')\<rparr>\<rparr>)"
  using assms by (simp add: Credentials_ValidatePath_def secretRefs_def Let_def)

theorem Credentials_both_missing_witness:
  "cloneSecretOf (sampleBuild '''' (Some ''non-existing-source'') (Some ''non-existing-output'')) =
      Some ''non-existing-source'' \<and>
   pushSecretOf (sampleBuild '''' (Some ''non-existing-source'') (Some ''non-existing-output'')) =
      Some ''non-existing-output'' \<and>
   noSecrets ''build-examples'' ''non-existing-source'' = NotFound \<and>
   noSecrets ''build-examples'' ''non-existing-output'' = NotFound \<and>
   Credentials_ValidatePath noSecrets
      (sampleBuild '''' (Some ''non-existing-source'') (Some ''non-existing-output'')) =
    (None, (sampleBuild '''' (Some ''non-existing-source'') (Some ''non-existing-output''))
       \<lparr>Build_Status := \<lparr>BuildStatus_Reason = Some ''MultipleSecretRefNotFound'',
          BuildStatus_Message =
            Some ''missing secrets are non-existing-output,non-existing-source''\<rparr>\<rparr>)"
  using Credentials_both_missing [of
     "sampleBuild '''' (Some ''non-existing-source'') (Some ''non-existing-output'')"
     "''non-existing-source''" "''non-existing-output''" noSecrets] sort_test_secrets
  by (simp add: sampleBuild_def cloneSecretOf_def pushSecretOf_def noSecrets_def
        MultipleSecretRefNotFound_def)


subsection \<open>AmendTaskSpecWithSources\<close>

lemma foldl_AppendHttpStep:
  "TaskSpec_Steps (foldl (\<lambda>t source. AppendHttpStep httpStep cfg t source) t srcs) =
     TaskSpec_Steps t @ map (httpStep cfg) srcs"
  by (induction srcs arbitrary: t) (simp_all add: AppendHttpStep_def)

text \<open>
  C4. The steps after AmendTaskSpecWithSources are the steps the task spec had, then one
  step for the default git source under the name \<open>default\<close>, then one step per auxiliary
  source in the order of the list (none when the list is nil or empty).
\<close>

theorem AmendTaskSpecWithSources_steps:
  "TaskSpec_Steps (AmendTaskSpecWithSources (AppendGitStep gitStep) (AppendHttpStep httpStep)
       cfg taskSpec spec) =
     TaskSpec_Steps taskSpec @
     [(gitStep cfg (SourcesSpec_Source spec))\<lparr>Step_Name := ''default''\<rparr>] @
     map (httpStep cfg) (case SourcesSpec_Sources spec of None \<Rightarrow> [] | Some srcs \<Rightarrow> srcs)"
  by (simp add: AmendTaskSpecWithSources_def foldl_AppendHttpStep AppendGitStep_def
        split: option.split)

text \<open>A default git source and the auxiliary sources X, Y: three steps, in that order.\<close>

theorem AmendTaskSpecWithSources_steps_witness:
  "TaskSpec_Steps (AmendTaskSpecWithSources (AppendGitStep gitStepOf) (AppendHttpStep httpStepOf)
       ''img'' \<lparr>TaskSpec_Steps = []\<rparr> twoSources) =
     [(gitStepOf ''img'' (SourcesSpec_Source twoSources))\<lparr>Step_Name := ''default''\<rparr>,
      httpStepOf ''img'' sourceX, httpStepOf ''img'' sourceY]"
  using AmendTaskSpecWithSources_steps
    [of gitStepOf httpStepOf "''img''" "\<lparr>TaskSpec_Steps = []\<rparr>" twoSources]
  by (simp add: twoSources_def)


subsection \<open>UpdateBuildRunUsingTaskFailures\<close>

lemma known_keys:
  "errorReasonKey ''shp'' = ''shp-result-error-reason''"
  "errorMessageKey ''shp'' = ''shp-result-error-message''"
  by (simp_all add: errorReasonKey_def errorMessageKey_def resultErrorReason_def
        resultErrorMessage_def)

lemma known_messages_differ: "messageWithErrors \<noteq> messageUnrelated"
  by (simp add: messageWithErrors_def messageUnrelated_def)

lemma decode_both: "decodeKnown messageWithErrors = Some [errorReason, errorMessage, unrelated]"
  by (simp add: decodeKnown_def)

lemma decode_unrelated: "decodeKnown messageUnrelated = Some [unrelated]"
  using known_messages_differ by (simp add: decodeKnown_def)

text \<open>The model passes the first test of the function: the failure holds val1 and val2.\<close>

lemma surfaces_errors_in_failed_TaskRun:
  "UpdateBuildRunUsingTaskFailures decodeKnown ''shp'' redBuild redTaskRun =
     \<lparr>BuildRunV1alpha1_Status = \<lparr>BuildRunStatus_Failure =
        Some \<lparr>Failure_Reason = ''val1'', Failure_Message = ''val2''\<rparr>\<rparr>\<rparr>"
  by (simp add: UpdateBuildRunUsingTaskFailures_def GetCondition_def redTaskRun_def
        taskRunOf_def ConditionSucceeded_def TaskRunReasonFailed_def extractFailure_def
        terminatedWith_def decode_both resultValue_def errorReason_def errorMessage_def
        unrelated_def known_keys redBuild_def)

text \<open>
  And the other four: a failed TaskRun whose message lacks the keys, a TaskRun whose
  Succeeded condition has no reason, one with a Ready condition only, and one with the
  reason \<open>random\<close> all leave the failure unset.
\<close>

lemma leaves_failure_unset_in_remaining_tests:
  "UpdateBuildRunUsingTaskFailures decodeKnown ''shp'' redBuild
     (taskRunOf [\<lparr>Condition_Type = ConditionSucceeded, Condition_Status = '''',
                   Condition_Reason = TaskRunReasonFailed\<rparr>]
        [terminatedWith messageUnrelated]) = redBuild"
  "UpdateBuildRunUsingTaskFailures decodeKnown ''shp'' redBuild
     (taskRunOf [\<lparr>Condition_Type = ConditionSucceeded, Condition_Status = '''',
                   Condition_Reason = ''''\<rparr>] []) = redBuild"
  "UpdateBuildRunUsingTaskFailures decodeKnown ''shp'' redBuild
     (taskRunOf [\<lparr>Condition_Type = ConditionReady, Condition_Status = '''',
                   Condition_Reason = ''''\<rparr>] []) = redBuild"
  "UpdateBuildRunUsingTaskFailures decodeKnown ''shp'' redBuild
     (taskRunOf [\<lparr>Condition_Type = ConditionSucceeded, Condition_Status = '''',
                   Condition_Reason = ''random''\<rparr>] []) = redBuild"
  by (simp_all add: UpdateBuildRunUsingTaskFailures_def GetCondition_def taskRunOf_def
        ConditionSucceeded_def ConditionReady_def TaskRunReasonFailed_def extractFailure_def
        terminatedWith_def decode_unrelated resultValue_def unrelated_def known_keys)

lemma firstParsed_step:
  "firstParsed unmarshal steps = Some results \<Longrightarrow>
   \<exists>step \<in> set steps. \<exists>terminated. StepState_Terminated step = Some terminated \<and>
      unmarshal (ContainerStateTerminated_Message terminated) = Some results"
  by (induction steps) (auto split: option.splits)

lemma resultValue_member:
  assumes "resultValue k results = Some v"
  shows "\<lparr>PipelineResourceResult_Key = k, PipelineResourceResult_Value = v\<rparr> \<in> set results"
proof -
  from assms obtain r where f: "find (\<lambda>r. PipelineResourceResult_Key r = k) results = Some r"
    and v: "PipelineResourceResult_Value r = v"
    by (auto simp add: resultValue_def)
  from f have "r \<in> set results" and "PipelineResourceResult_Key r = k"
    by (auto simp add: find_Some_iff)
  with v show ?thesis by (cases r) auto
qed


lemma extractFailure_step:
  assumes "extractFailure unmarshal pfx taskRun = Some failure"
  shows "\<exists>step \<in> set (TaskRunStatus_Steps (TaskRun_Status taskRun)). \<exists>terminated results.
      StepState_Terminated step = Some terminated \<and>
      unmarshal (ContainerStateTerminated_Message terminated) = Some results \<and>
      \<lparr>PipelineResourceResult_Key = errorReasonKey pfx,
       PipelineResourceResult_Value = Failure_Reason failure\<rparr> \<in> set results \<and>
      \<lparr>PipelineResourceResult_Key = errorMessageKey pfx,
       PipelineResourceResult_Value = Failure_Message failure\<rparr> \<in> set results"
proof -
  from assms obtain results r m where
    fp: "firstParsed unmarshal (TaskRunStatus_Steps (TaskRun_Status taskRun)) = Some results"
    and r: "resultValue (errorReasonKey pfx) results = Some r"
    and m: "resultValue (errorMessageKey pfx) results = Some m"
    and f: "failure = \<lparr>Failure_Reason = r, Failure_Message = m\<rparr>"
    by (auto simp add: extractFailure_def split: option.splits)
  from firstParsed_step[OF fp] obtain step terminated where
    s: "step \<in> set (TaskRunStatus_Steps (TaskRun_Status taskRun))"
       "StepState_Terminated step = Some terminated"
       "unmarshal (ContainerStateTerminated_Message terminated) = Some results" by blast
  from resultValue_member[OF r] resultValue_member[OF m] f s show ?thesis by auto
qed

text \<open>
  C5, as stated, fails on the test of the function itself: the failed TaskRun of the test
  has a condition of type Succeeded with reason Failed and no status, so it is not the
  condition with status False, and the failure is filled in all the same.
\<close>

theorem failure_without_status_False_counterexample:
  "TaskRunStatus_Conditions (TaskRun_Status redTaskRun) =
     [\<lparr>Condition_Type = ''Succeeded'', Condition_Status = '''', Condition_Reason = ''Failed''\<rparr>] \<and>
   \<not> isFailedCondition
     \<lparr>Condition_Type = ''Succeeded'', Condition_Status = '''', Condition_Reason = ''Failed''\<rparr> \<and>
   BuildRunStatus_Failure (BuildRunV1alpha1_Status redBuild) = None \<and>
   BuildRunStatus_Failure (BuildRunV1alpha1_Status
      (UpdateBuildRunUsingTaskFailures decodeKnown ''shp'' redBuild redTaskRun)) =
     Some \<lparr>Failure_Reason = ''val1'', Failure_Message = ''val2''\<rparr>"
  by (simp add: surfaces_errors_in_failed_TaskRun)
     (simp add: redTaskRun_def taskRunOf_def isFailedCondition_def redBuild_def
        ConditionSucceeded_def TaskRunReasonFailed_def)

text \<open>
  C5, amended. The function changes the BuildRun only if the TaskRun has a condition of
  type Succeeded whose reason is Failed and some step carries a termination message that
  parses as an array holding both well-known keys. So a condition of another type, a
  reason other than Failed, a missing or unparsable termination message and a message
  without one of the keys all leave the BuildRun, and its failure, as they were. The
  function has no error to return.
\<close>

theorem Update_changes_only_on_failure:
  "UpdateBuildRunUsingTaskFailures unmarshal pfx buildRun taskRun \<noteq> buildRun \<longrightarrow>
     (\<exists>c. GetCondition ConditionSucceeded (TaskRunStatus_Conditions (TaskRun_Status taskRun)) =
            Some c \<and>
          Condition_Type c = ConditionSucceeded \<and> Condition_Reason c = TaskRunReasonFailed) \<and>
     (\<exists>step \<in> set (TaskRunStatus_Steps (TaskRun_Status taskRun)).
        \<exists>terminated results reason msg.
          StepState_Terminated step = Some terminated \<and>
          unmarshal (ContainerStateTerminated_Message terminated) = Some results \<and>
          \<lparr>PipelineResourceResult_Key = errorReasonKey pfx,
           PipelineResourceResult_Value = reason\<rparr> \<in> set results \<and>
          \<lparr>PipelineResourceResult_Key = errorMessageKey pfx,
           PipelineResourceResult_Value = msg\<rparr> \<in> set results)"
proof
  let ?conds = "TaskRunStatus_Conditions (TaskRun_Status taskRun)"
  assume changed: "UpdateBuildRunUsingTaskFailures unmarshal pfx buildRun taskRun \<noteq> buildRun"
  then obtain c where c: "GetCondition ConditionSucceeded ?conds = Some c"
    by (auto simp add: UpdateBuildRunUsingTaskFailures_def split: option.splits)
  with changed have r: "Condition_Reason c = TaskRunReasonFailed"
    by (auto simp add: UpdateBuildRunUsingTaskFailures_def split: option.splits if_splits)
  from c have t: "Condition_Type c = ConditionSucceeded"
    by (auto simp add: GetCondition_def find_Some_iff)
  from changed c r obtain failure where "extractFailure unmarshal pfx taskRun = Some failure"
    by (auto simp add: UpdateBuildRunUsingTaskFailures_def split: option.splits)
  from extractFailure_step[OF this] have
    "\<exists>step \<in> set (TaskRunStatus_Steps (TaskRun_Status taskRun)).
        \<exists>terminated results reason msg.
          StepState_Terminated step = Some terminated \<and>
          unmarshal (ContainerStateTerminated_Message terminated) = Some results \<and>
          \<lparr>PipelineResourceResult_Key = errorReasonKey pfx,
           PipelineResourceResult_Value = reason\<rparr> \<in> set results \<and>
          \<lparr>PipelineResourceResult_Key = errorMessageKey pfx,
           PipelineResourceResult_Value = msg\<rparr> \<in> set results"
    by blast
  with c r t show
    "(\<exists>c. GetCondition ConditionSucceeded ?conds = Some c \<and>
          Condition_Type c = ConditionSucceeded \<and> Condition_Reason c = TaskRunReasonFailed) \<and>
     (\<exists>step \<in> set (TaskRunStatus_Steps (TaskRun_Status taskRun)).
        \<exists>terminated results reason msg.
          StepState_Terminated step = Some terminated \<and>
          unmarshal (ContainerStateTerminated_Message terminated) = Some results \<and>
          \<lparr>PipelineResourceResult_Key = errorReasonKey pfx,
           PipelineResourceResult_Value = reason\<rparr> \<in> set results \<and>
          \<lparr>PipelineResourceResult_Key = errorMessageKey pfx,
           PipelineResourceResult_Value = msg\<rparr> \<in> set results)"
    by blast
qed

theorem Update_changes_only_on_failure_witness:
  "UpdateBuildRunUsingTaskFailures decodeKnown ''shp'' redBuild redTaskRun \<noteq> redBuild \<and>
   (\<exists>c. GetCondition ConditionSucceeded (TaskRunStatus_Conditions (TaskRun_Status redTaskRun)) =
          Some c \<and>
        Condition_Type c = ConditionSucceeded \<and> Condition_Reason c = TaskRunReasonFailed)"
proof -
  have changed: "UpdateBuildRunUsingTaskFailures decodeKnown ''shp'' redBuild redTaskRun \<noteq> redBuild"
    by (simp only: surfaces_errors_in_failed_TaskRun) (simp add: redBuild_def)
  with Update_changes_only_on_failure [of decodeKnown "''shp''" redBuild redTaskRun]
  show ?thesis by blast
qed





text \<open>
  C7. The function is idempotent: run a second time on the same TaskRun, it returns the
  BuildRun the first run returned, so the failure, its reason and its message, is the same
  after two runs as after one.
\<close>

theorem Update_idempotent:
  "UpdateBuildRunUsingTaskFailures unmarshal pfx
      (UpdateBuildRunUsingTaskFailures unmarshal pfx buildRun taskRun) taskRun =
    UpdateBuildRunUsingTaskFailures unmarshal pfx buildRun taskRun"
  by (simp add: UpdateBuildRunUsingTaskFailures_def split: option.splits)

theorem Update_idempotent_witness:
  "UpdateBuildRunUsingTaskFailures decodeKnown ''shp''
      (UpdateBuildRunUsingTaskFailures decodeKnown ''shp'' redBuild redTaskRun) redTaskRun =
     \<lparr>BuildRunV1alpha1_Status = \<lparr>BuildRunStatus_Failure =
        Some \<lparr>Failure_Reason = ''val1'', Failure_Message = ''val2''\<rparr>\<rparr>\<rparr>"
  using Update_idempotent [of decodeKnown "''shp''" redBuild redTaskRun]
  by (simp only: surfaces_errors_in_failed_TaskRun)

end
